theory Spec2Isabelle
  imports Main "HOL-Library.Product_Lexorder"
begin

section \<open>Cell values\<close>

text \<open>
  A cell read out of a pandas row is, for the code paths modelled here, one of three
  things: Python's \<^verbatim>\<open>None\<close> (what \<^verbatim>\<open>row.get(col, None)\<close> returns when the column
  does not exist), the float NaN (what pandas stores for a missing cell of an existing
  column), or a number holding an integer code.
\<close>

datatype pyval = PyNone | NaN | Num int

text \<open>
  Python's \<^verbatim>\<open>==\<close> on such values: \<^verbatim>\<open>None == None\<close> is true, NaN is equal to
  nothing (not even to itself), numbers compare by value, and \<^verbatim>\<open>None\<close> is never equal
  to a number.  \<^verbatim>\<open>!=\<close> is its negation on these values, and \<^verbatim>\<open>x in (a, b, c)\<close>
  with integer literals is a chain of \<^verbatim>\<open>==\<close> tests.
\<close>

fun py_eq :: "pyval \<Rightarrow> pyval \<Rightarrow> bool" where
  "py_eq PyNone PyNone = True"
| "py_eq (Num a) (Num b) = (a = b)"
| "py_eq _ _ = False"

definition py_ne :: "pyval \<Rightarrow> pyval \<Rightarrow> bool" where
  "py_ne a b = (\<not> py_eq a b)"

definition py_in :: "pyval \<Rightarrow> int list \<Rightarrow> bool" where
  "py_in v codes = list_ex (\<lambda>c. py_eq v (Num c)) codes"

definition is_not_None :: "pyval \<Rightarrow> bool" where
  "is_not_None v = (v \<noteq> PyNone)"

section \<open>transitions.py: the transition classifier\<close>

datatype TransitionType =
    SAME_HOUSEHOLD
  | MARRIAGE
  | DIVORCE
  | WIDOWHOOD
  | LEAVE_PARENTAL
  | SPLITOFF
  | JOIN_HOUSEHOLD
  | MOVE_WITH_FAMILY
  | DEATH
  | BIRTH
  | OTHER

text \<open>
  \<^verbatim>\<open>_classify_transition(hh_from, hh_to, rel_from, rel_to, marital_from, marital_to,
  age_from, age_to)\<close>, branch by branch in the order of the source.  The two ages are
  parameters of the source function that its body never reads.
\<close>

definition classify_transition ::
  "pyval \<Rightarrow> pyval \<Rightarrow> pyval \<Rightarrow> pyval \<Rightarrow> pyval \<Rightarrow> pyval \<Rightarrow> pyval \<Rightarrow> pyval \<Rightarrow> TransitionType"
where
  "classify_transition hh_from hh_to rel_from rel_to marital_from marital_to age_from age_to =
    (if py_eq hh_from hh_to then SAME_HOUSEHOLD
     else if (is_not_None marital_from \<and> is_not_None marital_to)
           \<and> (py_in marital_from [2, 4, 5] \<and> py_eq marital_to (Num 1)) then MARRIAGE
     else if (is_not_None marital_from \<and> is_not_None marital_to)
           \<and> (py_eq marital_from (Num 1) \<and> py_in marital_to [4, 5]) then DIVORCE
     else if (is_not_None marital_from \<and> is_not_None marital_to)
           \<and> (py_eq marital_from (Num 1) \<and> py_eq marital_to (Num 3)) then WIDOWHOOD
     else if (is_not_None rel_from \<and> is_not_None rel_to)
           \<and> (py_eq rel_from (Num 3) \<and> py_eq rel_to (Num 1)) then LEAVE_PARENTAL
     else if (is_not_None rel_from \<and> is_not_None rel_to)
           \<and> (py_ne rel_from (Num 1) \<and> py_eq rel_to (Num 1)) then SPLITOFF
     else if (is_not_None rel_from \<and> is_not_None rel_to)
           \<and> (py_eq rel_from (Num 1) \<and> py_ne rel_to (Num 1)) then JOIN_HOUSEHOLD
     else OTHER)"

text \<open>
  The signals of one pair of observations, and the body of \<^verbatim>\<open>_classify_transition\<close>
  read as an ordered list of rules (a guard and a category each), the first rule whose
  guard holds giving the result and \<open>OTHER\<close> when none does.  In \<open>source_rules\<close> the
  guards are the tests of the source: a marital or relationship code counts as given
  when it \<^verbatim>\<open>is not None\<close>, which NaN passes.
\<close>

record pair_signals =
  household_key_from :: pyval
  household_key_to :: pyval
  relationship_from :: pyval
  relationship_to :: pyval
  marital_from :: pyval
  marital_to :: pyval

definition marital_not_None :: "pair_signals \<Rightarrow> bool" where
  "marital_not_None s = (marital_from s \<noteq> PyNone \<and> marital_to s \<noteq> PyNone)"

definition relationship_not_None :: "pair_signals \<Rightarrow> bool" where
  "relationship_not_None s = (relationship_from s \<noteq> PyNone \<and> relationship_to s \<noteq> PyNone)"

definition source_rules :: "((pair_signals \<Rightarrow> bool) \<times> TransitionType) list" where
  "source_rules =
    [ (\<lambda>s. py_eq (household_key_from s) (household_key_to s), SAME_HOUSEHOLD),
      (\<lambda>s. marital_not_None s \<and> py_in (marital_from s) [2, 4, 5] \<and> py_eq (marital_to s) (Num 1),
         MARRIAGE),
      (\<lambda>s. marital_not_None s \<and> py_eq (marital_from s) (Num 1) \<and> py_in (marital_to s) [4, 5],
         DIVORCE),
      (\<lambda>s. marital_not_None s \<and> py_eq (marital_from s) (Num 1) \<and> py_eq (marital_to s) (Num 3),
         WIDOWHOOD),
      (\<lambda>s. relationship_not_None s \<and> py_eq (relationship_from s) (Num 3)
            \<and> py_eq (relationship_to s) (Num 1), LEAVE_PARENTAL),
      (\<lambda>s. relationship_not_None s \<and> py_ne (relationship_from s) (Num 1)
            \<and> py_eq (relationship_to s) (Num 1), SPLITOFF),
      (\<lambda>s. relationship_not_None s \<and> py_eq (relationship_from s) (Num 1)
            \<and> py_ne (relationship_to s) (Num 1), JOIN_HOUSEHOLD) ]"

fun first_match :: "(('s \<Rightarrow> bool) \<times> 'c) list \<Rightarrow> 'c \<Rightarrow> 's \<Rightarrow> 'c" where
  "first_match [] dflt s = dflt"
| "first_match ((guard, cat) # rules) dflt s =
     (if guard s then cat else first_match rules dflt s)"

text \<open>
  The decision list as the specification words it.  A code is present when the cell
  holds a number: both \<^verbatim>\<open>None\<close> and NaN are missing values, and a rule one of whose
  codes is missing is not matched.  The guards compare the integer codes themselves.
\<close>

definition code_of :: "pyval \<Rightarrow> int option" where
  "code_of v = (case v of Num n \<Rightarrow> Some n | _ \<Rightarrow> None)"

definition spec_rules :: "((pair_signals \<Rightarrow> bool) \<times> TransitionType) list" where
  "spec_rules =
    [ (\<lambda>s. code_of (household_key_from s) \<noteq> None
            \<and> code_of (household_key_from s) = code_of (household_key_to s), SAME_HOUSEHOLD),
      (\<lambda>s. code_of (marital_from s) \<in> {Some 2, Some 4, Some 5}
            \<and> code_of (marital_to s) = Some 1, MARRIAGE),
      (\<lambda>s. code_of (marital_from s) = Some 1
            \<and> code_of (marital_to s) \<in> {Some 4, Some 5}, DIVORCE),
      (\<lambda>s. code_of (marital_from s) = Some 1 \<and> code_of (marital_to s) = Some 3, WIDOWHOOD),
      (\<lambda>s. code_of (relationship_from s) = Some 3 \<and> code_of (relationship_to s) = Some 1,
         LEAVE_PARENTAL),
      (\<lambda>s. code_of (relationship_from s) \<notin> {None, Some 1}
            \<and> code_of (relationship_to s) = Some 1, SPLITOFF),
      (\<lambda>s. code_of (relationship_from s) = Some 1
            \<and> code_of (relationship_to s) \<notin> {None, Some 1}, JOIN_HOUSEHOLD) ]"

definition spec_classify :: "pair_signals \<Rightarrow> TransitionType" where
  "spec_classify s = first_match spec_rules OTHER s"

section \<open>sample.py: the sample classifier\<close>

datatype SampleType = SRC | SEO | IMMIGRANT | LATINO | UNKNOWN

text \<open>The dictionary \<^verbatim>\<open>SAMPLE_RANGES\<close>, in its insertion order (the order Python iterates it).\<close>

definition SAMPLE_RANGES :: "(SampleType \<times> (int \<times> int) list) list" where
  "SAMPLE_RANGES =
    [ (SRC, [(1, 2999)]),
      (SEO, [(5001, 6872)]),
      (IMMIGRANT, [(3001, 3511), (4001, 4462), (7001, 9308)]) ]"

text \<open>The inner loop of \<^verbatim>\<open>get_sample_type\<close>: does one of the ranges hold the code?\<close>

fun in_ranges :: "int \<Rightarrow> (int \<times> int) list \<Rightarrow> bool" where
  "in_ranges er30001 [] = False"
| "in_ranges er30001 ((low, high) # ranges) =
     (if low \<le> er30001 \<and> er30001 \<le> high then True else in_ranges er30001 ranges)"

text \<open>The outer loop: the first stratum with a matching range is returned.\<close>

fun scan_samples :: "int \<Rightarrow> (SampleType \<times> (int \<times> int) list) list \<Rightarrow> SampleType" where
  "scan_samples er30001 [] = UNKNOWN"
| "scan_samples er30001 ((sample_type, ranges) # items) =
     (if in_ranges er30001 ranges then sample_type else scan_samples er30001 items)"

definition get_sample_type :: "int \<Rightarrow> SampleType" where
  "get_sample_type er30001 = scan_samples er30001 SAMPLE_RANGES"

section \<open>The person identifier\<close>

text \<open>
  \<^verbatim>\<open>ind["person_id"] = ind["ER30001"] * 1000 + ind["ER30002"]\<close> (panel.py, and the same
  expression in \<^verbatim>\<open>load_individual\<close>) is arithmetic on two pandas columns, done in the
  integer type in which each column is stored: \<^verbatim>\<open>read_stata\<close> gives a Stata \<^verbatim>\<open>int\<close>
  column the dtype int16 and a \<^verbatim>\<open>long\<close> column int32, and the text reader gives int64.
  The product with the Python integer 1000 keeps the dtype of the column and wraps
  around silently; the sum is taken in the wider of the two dtypes.  The dtypes are those
  that hold the factor 1000.
\<close>

datatype int_dtype = Int16 | Int32 | Int64

fun bits :: "int_dtype \<Rightarrow> nat" where
  "bits Int16 = 16"
| "bits Int32 = 32"
| "bits Int64 = 64"

text \<open>Two's-complement wrap-around into the range of the dtype.\<close>

definition wrap :: "int_dtype \<Rightarrow> int \<Rightarrow> int" where
  "wrap t x = (x + 2 ^ (bits t - 1)) mod 2 ^ bits t - 2 ^ (bits t - 1)"

definition wider :: "int_dtype \<Rightarrow> int_dtype \<Rightarrow> int_dtype" where
  "wider t u = (if bits t \<le> bits u then u else t)"

definition person_id_of :: "int_dtype \<Rightarrow> int_dtype \<Rightarrow> int \<Rightarrow> int \<Rightarrow> int" where
  "person_id_of t1 t2 er30001 er30002 = wrap (wider t1 t2) (wrap t1 (er30001 * 1000) + er30002)"

section \<open>Errors\<close>

text \<open>
  The exceptions the modelled code can raise.  \<open>KeyError\<close> carries the key pandas or
  Python reports; the others carry a message (the source's f-strings, shortened).
  \<open>Unmodelled\<close> is not a Python exception: it marks the two places where the model
  stops because pandas is working on duplicate column labels.
\<close>

datatype py_error =
    KeyError string
  | ValueError string
  | FileNotFoundError string
  | IndexError string
  | Unmodelled string

section \<open>Data frames and the object store\<close>

text \<open>
  A pandas DataFrame is its list of column names and its rows.  A row carries the value
  of the panel's identifier column and of its time column as integers (the fields
  \<open>person_id\<close> and \<open>year\<close>: \<^verbatim>\<open>build_panel\<close> computes the first from integer columns
  and sets the second from an integer literal), and every other column as a named cell.
  \<open>columns\<close> lists all column names, the identifier and time columns included.  The
  names of the identifier and of the time column are taken to be different from each
  other; a cell stored under one of these two names is not read.
\<close>

record observation =
  person_id :: int
  year :: int
  cells :: "(string \<times> pyval) list"

record dataframe =
  columns :: "string list"
  rows :: "observation list"

text \<open>
  DataFrames are mutable objects that the code reaches through references.  The store
  maps a reference to the frame it holds now; \<open>next_ref\<close> is the first reference not
  yet given out.  A frame is put in the store when the source binds it to a name that it
  later writes through, or returns it; frames that only pass from one pandas call to the
  next are kept as values.
\<close>

record store =
  frames :: "nat \<Rightarrow> dataframe"
  next_ref :: nat

definition alloc :: "dataframe \<Rightarrow> store \<Rightarrow> nat \<times> store" where
  "alloc df s = (next_ref s, s\<lparr>frames := (frames s)(next_ref s := df),
                                 next_ref := Suc (next_ref s)\<rparr>)"

definition write_frame :: "nat \<Rightarrow> dataframe \<Rightarrow> store \<Rightarrow> store" where
  "write_frame r df s = s\<lparr>frames := (frames s)(r := df)\<rparr>"

text \<open>The dataclass \<^verbatim>\<open>Panel\<close>; \<open>data\<close> is the reference to its DataFrame.\<close>

record panel =
  data :: nat
  id_col :: string
  time_col :: string
  value_cols :: "string list"

text \<open>
  Constructing \<^verbatim>\<open>Panel(data=..., id_col=..., time_col=...)\<close>: \<^verbatim>\<open>__post_init__\<close> fills
  \<^verbatim>\<open>_value_cols\<close> from the frame's columns.
\<close>

definition new_Panel :: "nat \<Rightarrow> string \<Rightarrow> string \<Rightarrow> store \<Rightarrow> panel" where
  "new_Panel d idc tc s =
     \<lparr> data = d, id_col = idc, time_col = tc,
       value_cols = filter (\<lambda>c. c \<notin> {idc, tc, ''interview_number'', ''sequence''})
                      (columns (frames s d)) \<rparr>"

subsection \<open>The pandas operations the code uses\<close>

text \<open>\<^verbatim>\<open>df[col]\<close> on one row: the typed fields for the identifier and time columns, the
  named cell otherwise (NaN where a row has no such cell).\<close>

definition column_value :: "string \<Rightarrow> string \<Rightarrow> observation \<Rightarrow> string \<Rightarrow> pyval" where
  "column_value idc tc r col =
     (if col = idc then Num (person_id r)
      else if col = tc then Num (year r)
      else (case map_of (cells r) col of Some v \<Rightarrow> v | None \<Rightarrow> NaN))"

text \<open>\<^verbatim>\<open>row.get(col, None)\<close> on a row of the frame \<open>df\<close>.\<close>

definition row_get :: "string \<Rightarrow> string \<Rightarrow> dataframe \<Rightarrow> observation \<Rightarrow> string \<Rightarrow> pyval" where
  "row_get idc tc df r col =
     (if col \<in> set (columns df) then column_value idc tc r col else PyNone)"

text \<open>\<^verbatim>\<open>pd.isna\<close> on a cell.\<close>

definition isna :: "pyval \<Rightarrow> bool" where
  "isna v = (v = NaN \<or> v = PyNone)"

text \<open>\<^verbatim>\<open>df.sort_values([id_col, time_col])\<close> and \<^verbatim>\<open>group.sort_values(time_col)\<close>: stable
  sorts.  (Where two rows of one person carry the same year pandas may order the two
  differently; nothing proved below depends on the order of such rows.)\<close>

definition sort_values_id_time :: "observation list \<Rightarrow> observation list" where
  "sort_values_id_time xs = sort_key (\<lambda>r. (person_id r, year r)) xs"

definition sort_values_time :: "observation list \<Rightarrow> observation list" where
  "sort_values_time xs = sort_key year xs"

text \<open>The keys of \<^verbatim>\<open>df.groupby(id_col)\<close>, in the sorted order pandas iterates them, and
  the rows of one group, in frame order.\<close>

definition groupby_keys :: "observation list \<Rightarrow> int list" where
  "groupby_keys xs = sort (remdups (map person_id xs))"

definition get_group :: "int \<Rightarrow> observation list \<Rightarrow> observation list" where
  "get_group k xs = filter (\<lambda>r. person_id r = k) xs"

text \<open>\<^verbatim>\<open>.groupby(id_col)[time_col].nunique()\<close> and \<^verbatim>\<open>.count()\<close>: one entry per key.\<close>

definition groupby_nunique :: "observation list \<Rightarrow> (int \<times> nat) list" where
  "groupby_nunique xs =
     map (\<lambda>k. (k, length (remdups (map year (get_group k xs))))) (groupby_keys xs)"

definition groupby_count :: "observation list \<Rightarrow> (int \<times> nat) list" where
  "groupby_count xs = map (\<lambda>k. (k, length (get_group k xs))) (groupby_keys xs)"

text \<open>\<^verbatim>\<open>df.groupby(id_col)[col].shift(-1)\<close>: for each row the value of the column in the
  next row of the same person further down the frame, NaN when there is none.\<close>

fun groupby_shift_next :: "(observation \<Rightarrow> pyval) \<Rightarrow> observation list \<Rightarrow> pyval list" where
  "groupby_shift_next f [] = []"
| "groupby_shift_next f (r # rest) =
     (case List.find (\<lambda>r'. person_id r' = person_id r) rest of
        None \<Rightarrow> NaN
      | Some r' \<Rightarrow> f r') # groupby_shift_next f rest"

text \<open>\<^verbatim>\<open>df[name] = values\<close>: writes a column into the frame, appending the name when it
  is new.\<close>

fun alist_update :: "string \<Rightarrow> pyval \<Rightarrow> (string \<times> pyval) list \<Rightarrow> (string \<times> pyval) list" where
  "alist_update k v [] = [(k, v)]"
| "alist_update k v ((k', v') # kvs) =
     (if k = k' then (k, v) # kvs else (k', v') # alist_update k v kvs)"

definition set_column :: "string \<Rightarrow> pyval list \<Rightarrow> dataframe \<Rightarrow> dataframe" where
  "set_column name vals df =
     \<lparr> columns = (if name \<in> set (columns df) then columns df else columns df @ [name]),
       rows = map (\<lambda>(r, v). r\<lparr>cells := alist_update name v (cells r)\<rparr>) (zip (rows df) vals) \<rparr>"

text \<open>\<^verbatim>\<open>df[result_cols]\<close>: a new frame with the listed columns.\<close>

definition select_columns :: "string \<Rightarrow> string \<Rightarrow> string list \<Rightarrow> dataframe \<Rightarrow> dataframe" where
  "select_columns idc tc cs df =
     \<lparr> columns = cs,
       rows = map (\<lambda>r. r\<lparr>cells := map (\<lambda>c. (c, column_value idc tc r c))
                                    (filter (\<lambda>c. c \<noteq> idc \<and> c \<noteq> tc) cs)\<rparr>) (rows df) \<rparr>"

text \<open>\<^verbatim>\<open>df.dropna(subset=[name])\<close>.\<close>

definition dropna :: "string \<Rightarrow> string \<Rightarrow> string \<Rightarrow> dataframe \<Rightarrow> dataframe" where
  "dropna idc tc name df =
     df\<lparr>rows := filter (\<lambda>r. \<not> isna (column_value idc tc r name)) (rows df)\<rparr>"

text \<open>\<^verbatim>\<open>df.rename(columns=rename)\<close>, the dictionary given as an association list whose
  first entry for a key is the one in force.\<close>

definition rename_name :: "(string \<times> string) list \<Rightarrow> string \<Rightarrow> string" where
  "rename_name rn c = (case map_of rn c of Some c' \<Rightarrow> c' | None \<Rightarrow> c)"

definition rename_columns :: "(string \<times> string) list \<Rightarrow> dataframe \<Rightarrow> dataframe" where
  "rename_columns rn df =
     \<lparr> columns = map (rename_name rn) (columns df),
       rows = map (\<lambda>r. r\<lparr>cells := map (\<lambda>(c, v). (rename_name rn c, v)) (cells r)\<rparr>) (rows df) \<rparr>"

section \<open>panel.py: the Panel operations\<close>

text \<open>The property \<^verbatim>\<open>Panel.years\<close>: \<^verbatim>\<open>sorted(self.data[self.time_col].unique())\<close>.\<close>

definition Panel_years :: "dataframe \<Rightarrow> int list" where
  "Panel_years df = sort (remdups (map year (rows df)))"

text \<open>
  \<^verbatim>\<open>Panel.balanced(years)\<close>.  \<^verbatim>\<open>years or self.years\<close> takes the panel's own years when
  the argument is \<^verbatim>\<open>None\<close> or empty; \<^verbatim>\<open>n_required\<close> is the length of the list.
\<close>

definition balanced :: "panel \<Rightarrow> int list option \<Rightarrow> store \<Rightarrow> (py_error + panel) \<times> store" where
  "balanced self years_arg s =
     (let df = frames s (data self) in
      if time_col self \<notin> set (columns df) then (Inl (KeyError (time_col self)), s)
      else
        let years = (case years_arg of
                       None \<Rightarrow> Panel_years df
                     | Some ys \<Rightarrow> if ys = [] then Panel_years df else ys);
            n_required = length years;
            in_years = filter (\<lambda>r. year r \<in> set years) (rows df)
        in if id_col self \<notin> set (columns df) then (Inl (KeyError (id_col self)), s)
           else
             let counts = groupby_nunique in_years;
                 valid_ids = map fst (filter (\<lambda>(k, c). c = n_required) counts);
                 filtered = df\<lparr>rows := filter (\<lambda>r. person_id r \<in> set valid_ids) (rows df)\<rparr>;
                 (r, s') = alloc filtered s
             in (Inr (new_Panel r (id_col self) (time_col self) s'), s'))"

text \<open>\<^verbatim>\<open>Panel.min_periods(n)\<close>.\<close>

definition min_periods :: "panel \<Rightarrow> int \<Rightarrow> store \<Rightarrow> (py_error + panel) \<times> store" where
  "min_periods self n s =
     (let df = frames s (data self) in
      if id_col self \<notin> set (columns df) then (Inl (KeyError (id_col self)), s)
      else if time_col self \<notin> set (columns df) then (Inl (KeyError (time_col self)), s)
      else
        let counts = groupby_count (rows df);
            valid_ids = map fst (filter (\<lambda>(k, c). int c \<ge> n) counts);
            filtered = df\<lparr>rows := filter (\<lambda>r. person_id r \<in> set valid_ids) (rows df)\<rparr>;
            (r, s') = alloc filtered s
        in (Inr (new_Panel r (id_col self) (time_col self) s'), s'))"

text \<open>
  \<^verbatim>\<open>Panel.to_cross_section(year)\<close>; it returns a DataFrame.  \<^verbatim>\<open>idxmax\<close> gives, for each
  person, the first row holding that person's largest year.
\<close>

fun first_max_row :: "observation \<Rightarrow> observation list \<Rightarrow> observation" where
  "first_max_row best [] = best"
| "first_max_row best (r # rs) = first_max_row (if year r > year best then r else best) rs"

definition idxmax_rows :: "observation list \<Rightarrow> observation list" where
  "idxmax_rows xs =
     concat (map (\<lambda>k. case get_group k xs of [] \<Rightarrow> [] | r # rs \<Rightarrow> [first_max_row r rs])
               (groupby_keys xs))"

definition to_cross_section :: "panel \<Rightarrow> int option \<Rightarrow> store \<Rightarrow> (py_error + nat) \<times> store" where
  "to_cross_section self year_arg s =
     (let df = frames s (data self) in
      case year_arg of
        Some y \<Rightarrow>
          if time_col self \<notin> set (columns df) then (Inl (KeyError (time_col self)), s)
          else let (r, s') = alloc (df\<lparr>rows := filter (\<lambda>r. year r = y) (rows df)\<rparr>) s
               in (Inr r, s')
      | None \<Rightarrow>
          if id_col self \<notin> set (columns df) then (Inl (KeyError (id_col self)), s)
          else if time_col self \<notin> set (columns df) then (Inl (KeyError (time_col self)), s)
          else let (r, s') = alloc (df\<lparr>rows := idxmax_rows (rows df)\<rparr>) s
               in (Inr r, s'))"

text \<open>
  \<^verbatim>\<open>Panel.get_transitions(cols)\<close>.  The loop over \<^verbatim>\<open>cols\<close> writes the shifted columns
  into the sorted copy \<^verbatim>\<open>df\<close> in place and extends \<^verbatim>\<open>result_cols\<close>.
\<close>

fun shift_columns :: "panel \<Rightarrow> string list \<Rightarrow> nat \<Rightarrow> string list \<Rightarrow> store \<Rightarrow> string list \<times> store" where
  "shift_columns self [] df result_cols s = (result_cols, s)"
| "shift_columns self (col # cols) df result_cols s =
     (if col \<notin> set (columns (frames s df)) then shift_columns self cols df result_cols s
      else
        let shifted = groupby_shift_next (\<lambda>r. column_value (id_col self) (time_col self) r col)
                        (rows (frames s df));
            s' = write_frame df (set_column (col @ ''_t1'') shifted (frames s df)) s
        in shift_columns self cols df (result_cols @ [col, col @ ''_t1'']) s')"

text \<open>\<^verbatim>\<open>cols or self._value_cols\<close>: the panel's value columns when the argument is
  \<^verbatim>\<open>None\<close> or empty.\<close>

definition requested_cols :: "panel \<Rightarrow> string list option \<Rightarrow> string list" where
  "requested_cols self cols_arg =
     (case cols_arg of
        None \<Rightarrow> value_cols self
      | Some cs \<Rightarrow> if cs = [] then value_cols self else cs)"

definition get_transitions :: "panel \<Rightarrow> string list option \<Rightarrow> store \<Rightarrow> (py_error + nat) \<times> store" where
  "get_transitions self cols_arg s =
     (let cols = requested_cols self cols_arg;
          (df0, s0) = alloc (frames s (data self)) s
      in if id_col self \<notin> set (columns (frames s0 df0)) then (Inl (KeyError (id_col self)), s0)
         else if time_col self \<notin> set (columns (frames s0 df0))
           then (Inl (KeyError (time_col self)), s0)
         else
           let (df, s1) = alloc ((frames s0 df0)\<lparr>rows := sort_values_id_time (rows (frames s0 df0))\<rparr>) s0;
               result_cols0 = [id_col self, time_col self];
               (result_cols1, s2) = shift_columns self cols df result_cols0 s1;
               year_t1 = groupby_shift_next (\<lambda>r. Num (year r)) (rows (frames s2 df));
               s3 = write_frame df (set_column ''year_t1'' year_t1 (frames s2 df)) s2;
               result_cols = take 2 result_cols1 @ [''year_t1''] @ drop 2 result_cols1;
               result0 = dropna (id_col self) (time_col self) ''year_t1''
                           (select_columns (id_col self) (time_col self) result_cols (frames s3 df));
               rename = (time_col self, ''year_t'')
                          # map (\<lambda>col. (col, col @ ''_t''))
                              (filter (\<lambda>col. col \<in> set (columns (frames s3 df))) cols);
               (result, s4) = alloc (rename_columns rename result0) s3
           in (Inr result, s4))"

section \<open>transitions.py: extracting the transition events\<close>

text \<open>The string value of each enum member (\<^verbatim>\<open>transition_type.value\<close>).\<close>

fun TransitionType_value :: "TransitionType \<Rightarrow> string" where
  "TransitionType_value SAME_HOUSEHOLD = ''same_household''"
| "TransitionType_value MARRIAGE = ''marriage''"
| "TransitionType_value DIVORCE = ''divorce''"
| "TransitionType_value WIDOWHOOD = ''widowhood''"
| "TransitionType_value LEAVE_PARENTAL = ''leave_parental''"
| "TransitionType_value SPLITOFF = ''splitoff''"
| "TransitionType_value JOIN_HOUSEHOLD = ''join_household''"
| "TransitionType_value MOVE_WITH_FAMILY = ''move_with_family''"
| "TransitionType_value DEATH = ''death''"
| "TransitionType_value BIRTH = ''birth''"
| "TransitionType_value OTHER = ''other''"

text \<open>One dictionary appended to \<^verbatim>\<open>transitions\<close>; the fields are the dictionary's keys,
  prefixed with \<open>tr_\<close>.\<close>

record transition_event =
  tr_person_id :: int
  tr_year_from :: int
  tr_year_to :: int
  tr_type :: string
  tr_hh_from :: pyval
  tr_hh_to :: pyval
  tr_relationship_from :: pyval
  tr_relationship_to :: pyval
  tr_marital_from :: pyval
  tr_marital_to :: pyval
  tr_age_from :: pyval
  tr_age_to :: pyval
  tr_hh_changed :: bool

text \<open>\<^verbatim>\<open>row.get(col) if col else None\<close> for an optional column name.\<close>

definition optional_get ::
  "string \<Rightarrow> string \<Rightarrow> dataframe \<Rightarrow> observation \<Rightarrow> string option \<Rightarrow> pyval" where
  "optional_get idc tc df r col =
     (case col of
        None \<Rightarrow> PyNone
      | Some c \<Rightarrow> if c = [] then PyNone else row_get idc tc df r c)"

text \<open>The body of the inner loop, for the rows \<^verbatim>\<open>group.iloc[i]\<close> and
  \<^verbatim>\<open>group.iloc[i + 1]\<close>.\<close>

definition transition_of ::
  "panel \<Rightarrow> dataframe \<Rightarrow> string \<Rightarrow> string \<Rightarrow> string option \<Rightarrow> string option \<Rightarrow> int
     \<Rightarrow> observation \<times> observation \<Rightarrow> transition_event" where
  "transition_of panel df interview_col relationship_col marital_col age_col pid =
     (\<lambda>(row_t, row_t1).
        let year_from = year row_t;
            year_to = year row_t1;
            hh_from = row_get (id_col panel) (time_col panel) df row_t interview_col;
            hh_to = row_get (id_col panel) (time_col panel) df row_t1 interview_col;
            rel_from = row_get (id_col panel) (time_col panel) df row_t relationship_col;
            rel_to = row_get (id_col panel) (time_col panel) df row_t1 relationship_col;
            marital_from = optional_get (id_col panel) (time_col panel) df row_t marital_col;
            marital_to = optional_get (id_col panel) (time_col panel) df row_t1 marital_col;
            age_from = optional_get (id_col panel) (time_col panel) df row_t age_col;
            age_to = optional_get (id_col panel) (time_col panel) df row_t1 age_col;
            transition_type = classify_transition hh_from hh_to rel_from rel_to
                                marital_from marital_to age_from age_to
        in \<lparr> tr_person_id = pid, tr_year_from = year_from, tr_year_to = year_to,
             tr_type = TransitionType_value transition_type,
             tr_hh_from = hh_from, tr_hh_to = hh_to,
             tr_relationship_from = rel_from, tr_relationship_to = rel_to,
             tr_marital_from = marital_from, tr_marital_to = marital_to,
             tr_age_from = age_from, tr_age_to = age_to,
             tr_hh_changed = py_ne hh_from hh_to \<rparr>)"

text \<open>\<^verbatim>\<open>for i in range(len(group) - 1)\<close>: the rows \<open>i\<close> and \<open>i + 1\<close> of the group.\<close>

fun adjacent_pairs :: "'a list \<Rightarrow> ('a \<times> 'a) list" where
  "adjacent_pairs (x # y # rest) = (x, y) # adjacent_pairs (y # rest)"
| "adjacent_pairs [x] = []"
| "adjacent_pairs [] = []"

text \<open>The pairs of rows one person contributes: none for a group of fewer than two
  rows, the adjacent rows of the group sorted by time otherwise.\<close>

definition group_pairs :: "observation list \<Rightarrow> (observation \<times> observation) list" where
  "group_pairs grp =
     (if length grp < 2 then [] else adjacent_pairs (sort_values_time grp))"

text \<open>\<^verbatim>\<open>get_household_transitions(panel, interview_col, relationship_col, marital_col,
  age_col)\<close>; the result is the list of dictionaries the returned DataFrame is built from.\<close>

definition get_household_transitions ::
  "panel \<Rightarrow> string \<Rightarrow> string \<Rightarrow> string option \<Rightarrow> string option \<Rightarrow> store
     \<Rightarrow> (py_error + transition_event list) \<times> store" where
  "get_household_transitions panel interview_col relationship_col marital_col age_col s =
     (let (df0, s0) = alloc (frames s (data panel)) s
      in if id_col panel \<notin> set (columns (frames s0 df0))
           then (Inl (KeyError (id_col panel)), s0)
         else if time_col panel \<notin> set (columns (frames s0 df0))
           then (Inl (KeyError (time_col panel)), s0)
         else
           let (df, s1) = alloc ((frames s0 df0)\<lparr>rows := sort_values_id_time (rows (frames s0 df0))\<rparr>) s0;
               d = frames s1 df;
               transitions =
                 concat (map (\<lambda>pid.
                           map (transition_of panel d interview_col relationship_col
                                  marital_col age_col pid)
                             (group_pairs (get_group pid (rows d))))
                         (groupby_keys (rows d)))
           in (Inr transitions, s1))"

section \<open>load.py: finding and loading the data files\<close>

text \<open>
  The raw files.  A family table has named columns only; a row of the individual table
  carries the two identifier columns \<^verbatim>\<open>ER30001\<close> and \<^verbatim>\<open>ER30002\<close> as integers and its
  other columns as named cells, and the table records the dtype in which each of the two
  identifier columns is stored.
\<close>

type_synonym raw_row = "(string \<times> pyval) list"

record family_table =
  fam_columns :: "string list"
  fam_rows :: "raw_row list"

record individual =
  ER30001 :: int
  ER30002 :: int
  ind_cells :: raw_row

record individual_table =
  ind_columns :: "string list"
  individuals :: "individual list"
  ER30001_dtype :: int_dtype
  ER30002_dtype :: int_dtype

text \<open>
  What is found on disk is a parameter of the model.  A located file is known by its
  suffix; for a \<^verbatim>\<open>.txt\<close> file, by whether its \<^verbatim>\<open>.do\<close> dictionary exists; and by what
  the reader (\<^verbatim>\<open>pd.read_stata\<close>, \<^verbatim>\<open>pd.read_parquet\<close>, \<^verbatim>\<open>load_fixed_width\<close>) yields
  for the requested columns, a table or an exception of its own.
\<close>

datatype 'a data_file =
    Dta "string list option \<Rightarrow> py_error + 'a"
  | Parquet "string list option \<Rightarrow> py_error + 'a"
  | Txt "(string list option \<Rightarrow> py_error + 'a) option"
  | OtherSuffix

record data_dir =
  individual_file :: "individual_table data_file option"
  family_file :: "int \<Rightarrow> family_table data_file option"

text \<open>\<^verbatim>\<open>str.upper()\<close> on ASCII text.\<close>

definition upper_char :: "char \<Rightarrow> char" where
  "upper_char c =
     (let n = (of_char c :: nat) in if 97 \<le> n \<and> n \<le> 122 then char_of (n - 32) else c)"

definition upper :: "string \<Rightarrow> string" where
  "upper str = map upper_char str"

text \<open>The branch on \<^verbatim>\<open>file_path.suffix\<close> shared by \<^verbatim>\<open>load_family\<close> and
  \<^verbatim>\<open>load_individual\<close>.\<close>

definition read_data_file :: "'a data_file \<Rightarrow> string list option \<Rightarrow> py_error + 'a" where
  "read_data_file f cols =
     (case f of
        Dta read_stata \<Rightarrow> read_stata cols
      | Parquet read_parquet \<Rightarrow> read_parquet cols
      | Txt None \<Rightarrow> Inl (FileNotFoundError ''Dictionary file not found'')
      | Txt (Some load_fixed_width) \<Rightarrow> load_fixed_width cols
      | OtherSuffix \<Rightarrow> Inl (ValueError ''Unsupported file format''))"

text \<open>\<^verbatim>\<open>load_family(year, data_dir, columns)\<close>: the column names are upper-cased and a
  \<^verbatim>\<open>year\<close> column is added.\<close>

definition load_family :: "int \<Rightarrow> data_dir \<Rightarrow> string list option \<Rightarrow> py_error + family_table" where
  "load_family yr dir cols =
     (case family_file dir yr of
        None \<Rightarrow> Inl (FileNotFoundError ''PSID family file not found'')
      | Some file_path \<Rightarrow>
          (case read_data_file file_path cols of
             Inl e \<Rightarrow> Inl e
           | Inr df \<Rightarrow>
               let names = map upper (fam_columns df);
                   recs = map (map (\<lambda>(c, v). (upper c, v))) (fam_rows df)
               in Inr \<lparr> fam_columns = (if ''year'' \<in> set names then names else names @ [''year'']),
                        fam_rows = map (alist_update ''year'' (Num yr)) recs \<rparr>))"


text \<open>Python's \<^verbatim>\<open>str\<close> of an integer, for the f-string in
  \<^verbatim>\<open>get_interview_number_column\<close>.\<close>

fun str_nat :: "nat \<Rightarrow> string" where
  "str_nat n = (if n < 10 then [char_of (48 + n)] else str_nat (n div 10) @ [char_of (48 + n mod 10)])"

definition str_int :: "int \<Rightarrow> string" where
  "str_int i = (if i < 0 then CHR ''-'' # str_nat (nat (- i)) else str_nat (nat i))"

definition interview_cols :: "(int \<times> string) list" where
  "interview_cols =
    [ (2021, ''ER34501''), (2019, ''ER34301''), (2017, ''ER34101''), (2015, ''ER33901''),
      (2013, ''ER33701''), (2011, ''ER33501''), (2009, ''ER33401''), (2007, ''ER33301''),
      (2005, ''ER33201''), (2003, ''ER33101''), (2001, ''ER33001''), (1999, ''ER32001''),
      (1997, ''ER30806''), (1996, ''ER30733''), (1995, ''ER30657''), (1994, ''ER30570''),
      (1993, ''ER30498''), (1992, ''ER30429''), (1991, ''ER30373''), (1990, ''ER30313''),
      (1989, ''ER30246''), (1988, ''ER30188''), (1987, ''ER30138''), (1986, ''ER30091''),
      (1985, ''ER30052''), (1984, ''ER30020''), (1983, ''V9071''), (1982, ''V8691''),
      (1981, ''V8351''), (1980, ''V7971''), (1979, ''V7571''), (1978, ''V7171''),
      (1977, ''V6771''), (1976, ''V6171''), (1975, ''V5571''), (1974, ''V4671''),
      (1973, ''V4171''), (1972, ''V3171''), (1971, ''V2571''), (1970, ''V1971''),
      (1969, ''V1471''), (1968, ''ER30001'') ]"

definition get_interview_number_column :: "int \<Rightarrow> string" where
  "get_interview_number_column yr =
     (case map_of interview_cols yr of
        Some c \<Rightarrow> c
      | None \<Rightarrow> ''ER'' @ str_int (30000 + (yr - 1968) * 100 + 1))"

definition seq_cols :: "(int \<times> string) list" where
  "seq_cols =
    [ (2021, ''ER34502''), (2019, ''ER34302''), (2017, ''ER34102''), (2015, ''ER33902''),
      (2013, ''ER33702''), (2011, ''ER33502''), (2009, ''ER33402''), (2007, ''ER33302''),
      (2005, ''ER33202''), (2003, ''ER33102''), (2001, ''ER33002''), (1999, ''ER32002''),
      (1997, ''ER30807'') ]"

definition get_sequence_number_column :: "int \<Rightarrow> string" where
  "get_sequence_number_column yr = (case map_of seq_cols yr of Some c \<Rightarrow> c | None \<Rightarrow> '''')"

definition rel_cols :: "(int \<times> string) list" where
  "rel_cols =
    [ (2021, ''ER34503''), (2019, ''ER34303''), (2017, ''ER34103''), (2015, ''ER33903''),
      (2013, ''ER33703''), (2011, ''ER33503''), (2009, ''ER33403''), (2007, ''ER33303''),
      (2005, ''ER33203''), (2003, ''ER33103''), (2001, ''ER33003''), (1999, ''ER32003''),
      (1997, ''ER30808'') ]"

definition get_relationship_column :: "int \<Rightarrow> string" where
  "get_relationship_column yr = (case map_of rel_cols yr of Some c \<Rightarrow> c | None \<Rightarrow> '''')"

section \<open>variables.py: the family variable specification\<close>

text \<open>\<^verbatim>\<open>FamilyVars.specs\<close>: friendly name to (year to code), both dictionaries as
  association lists in insertion order.\<close>

type_synonym FamilyVars = "(string \<times> (int \<times> string) list) list"

definition get_codes :: "FamilyVars \<Rightarrow> int \<Rightarrow> (string \<times> string) list" where
  "get_codes specs yr =
     List.map_filter (\<lambda>(name, year_codes). map_option (Pair name) (map_of year_codes yr)) specs"

definition get_columns :: "FamilyVars \<Rightarrow> int \<Rightarrow> string list" where
  "get_columns specs yr = map snd (get_codes specs yr)"

section \<open>sample.py: filtering the individuals by sample\<close>









section \<open>panel.py: build_panel\<close>


text \<open>The body of the loop for one year ends in one of three ways: an exception leaves
  \<^verbatim>\<open>build_panel\<close>, the year is skipped by \<^verbatim>\<open>continue\<close>, or a merged frame is appended
  to \<^verbatim>\<open>all_years\<close>.\<close>

datatype year_result = Raised py_error | Skipped py_error | Merged dataframe

text \<open>\<^verbatim>\<open>ind[col]\<close> on one row of the individual table.\<close>

definition row_person_id :: "individual_table \<Rightarrow> individual \<Rightarrow> int" where
  "row_person_id ind r =
     person_id_of (ER30001_dtype ind) (ER30002_dtype ind) (ER30001 r) (ER30002 r)"

definition ind_value :: "individual_table \<Rightarrow> individual \<Rightarrow> string \<Rightarrow> pyval" where
  "ind_value ind r col =
     (if col = ''ER30001'' then Num (ER30001 r)
      else if col = ''ER30002'' then Num (ER30002 r)
      else if col = ''person_id'' then Num (row_person_id ind r)
      else (case map_of (ind_cells r) col of Some v \<Rightarrow> v | None \<Rightarrow> NaN))"

text \<open>\<^verbatim>\<open>value > 0\<close> on a cell: false for NaN.\<close>

definition py_gt0 :: "pyval \<Rightarrow> bool" where
  "py_gt0 v = (case v of Num n \<Rightarrow> n > 0 | _ \<Rightarrow> False)"

text \<open>A dictionary built by a comprehension: the last entry for a key is the one in
  force.\<close>

definition dict_get :: "(string \<times> string) list \<Rightarrow> string \<Rightarrow> string \<Rightarrow> string" where
  "dict_get d k dflt = (case map_of (rev d) k of Some v \<Rightarrow> v | None \<Rightarrow> dflt)"

definition is_FileNotFoundError :: "py_error \<Rightarrow> bool" where
  "is_FileNotFoundError e = (case e of FileNotFoundError m \<Rightarrow> True | _ \<Rightarrow> False)"

text \<open>
  The loop body of \<^verbatim>\<open>build_panel\<close> for one year, in three parts.  First the columns
  of \<^verbatim>\<open>ind_year\<close> after the renaming (\<^verbatim>\<open>interview_number\<close>, \<^verbatim>\<open>sequence\<close> and
  \<^verbatim>\<open>relationship\<close> are there when the individual file has the year's column for them).
\<close>

definition ind_year_columns :: "individual_table \<Rightarrow> int \<Rightarrow> string list" where
  "ind_year_columns ind yr =
     (let interview_col = get_interview_number_column yr;
          seq_col = get_sequence_number_column yr;
          rel_col = get_relationship_column yr
      in [''person_id'', ''ER30001'', ''ER30002'']
         @ (if interview_col \<in> set (ind_columns ind) then [''interview_number''] else [])
         @ (if seq_col \<noteq> [] \<and> seq_col \<in> set (ind_columns ind) then [''sequence''] else [])
         @ (if rel_col \<noteq> [] \<and> rel_col \<in> set (ind_columns ind) then [''relationship''] else []))"

text \<open>Then the rows of \<^verbatim>\<open>ind_year\<close>: the individuals with a positive interview number
  that year and, with \<^verbatim>\<open>heads_only\<close>, with sequence number 1.\<close>

definition ind_year_rows :: "individual_table \<Rightarrow> bool \<Rightarrow> int \<Rightarrow> observation list" where
  "ind_year_rows ind heads_only yr =
     (let interview_col = get_interview_number_column yr;
          seq_col = get_sequence_number_column yr;
          rel_col = get_relationship_column yr;
          has_seq = (seq_col \<noteq> [] \<and> seq_col \<in> set (ind_columns ind));
          has_rel = (rel_col \<noteq> [] \<and> rel_col \<in> set (ind_columns ind));
          ind_year =
            map (\<lambda>r. \<lparr> person_id = row_person_id ind r, year = yr,
                        cells = [(''ER30001'', Num (ER30001 r)), (''ER30002'', Num (ER30002 r)),
                                 (''interview_number'', ind_value ind r interview_col)]
                                @ (if has_seq then [(''sequence'', ind_value ind r seq_col)] else [])
                                @ (if has_rel then [(''relationship'', ind_value ind r rel_col)] else []) \<rparr>)
              (individuals ind);
          in_sample = filter (\<lambda>r. py_gt0 (column_value ''person_id'' ''year'' r ''interview_number''))
                        ind_year
      in if heads_only \<and> has_seq
         then filter (\<lambda>r. py_eq (column_value ''person_id'' ''year'' r ''sequence'') (Num 1)) in_sample
         else in_sample)"

text \<open>
  Last, what follows a successful \<^verbatim>\<open>load_family\<close>: the first family column becomes
  \<^verbatim>\<open>fam_interview\<close>, the inner join on the interview number, the renaming of the family
  codes to friendly names, and the \<^verbatim>\<open>year\<close> column.  A family table that has a column
  named like one of the individual-side columns is not modelled (the merge would add
  suffixes).
\<close>

definition family_renaming :: "FamilyVars option \<Rightarrow> int \<Rightarrow> string list \<Rightarrow> string \<Rightarrow> string" where
  "family_renaming family_vars yr merged_names =
     (case family_vars of
        None \<Rightarrow> (\<lambda>c. c)
      | Some specs \<Rightarrow>
          let code_to_name = map (\<lambda>(k, v). (v, k)) (get_codes specs yr);
              d = map (\<lambda>c. (upper c, dict_get code_to_name (upper c) c)) merged_names
          in (\<lambda>c. dict_get d c c))"

text \<open>\<^verbatim>\<open>fam.rename(columns={fam.columns[0]: "fam_interview"})\<close>.\<close>

definition rename_to_fam_interview :: "string \<Rightarrow> family_table \<Rightarrow> family_table" where
  "rename_to_fam_interview fam_interview_col fam =
     (let to_key = (\<lambda>c. if c = fam_interview_col then ''fam_interview'' else c)
      in \<lparr> fam_columns = map to_key (fam_columns fam),
           fam_rows = map (map (\<lambda>(c, v). (to_key c, v))) (fam_rows fam) \<rparr>)"

text \<open>\<^verbatim>\<open>ind_year.merge(fam, left_on="interview_number", right_on="fam_interview",
  how="inner")\<close>: the rows, in the order of the left table.\<close>

definition inner_join :: "observation list \<Rightarrow> raw_row list \<Rightarrow> observation list" where
  "inner_join ind_year fam_recs =
     concat (map (\<lambda>l. map (\<lambda>fr. l\<lparr>cells := cells l @ fr\<rparr>)
                         (filter (\<lambda>fr. py_eq (column_value ''person_id'' ''year'' l ''interview_number'')
                                          (case map_of fr ''fam_interview'' of
                                             Some v \<Rightarrow> v | None \<Rightarrow> NaN))
                            fam_recs))
               ind_year)"

text \<open>The renaming of the merged frame and \<^verbatim>\<open>merged["year"] = year\<close> (the rows carry
  the year already).\<close>

definition merged_frame ::
  "FamilyVars option \<Rightarrow> int \<Rightarrow> string list \<Rightarrow> observation list \<Rightarrow> dataframe" where
  "merged_frame family_vars yr merged_names merged_rows =
     (let rename = family_renaming family_vars yr merged_names;
          renamed_names = map rename merged_names
      in \<lparr> columns = (if ''year'' \<in> set renamed_names then renamed_names
                       else renamed_names @ [''year'']),
           rows = map (\<lambda>r. r\<lparr>cells := map (\<lambda>(c, v). (rename c, v)) (cells r)\<rparr>) merged_rows \<rparr>)"

definition merge_family ::
  "FamilyVars option \<Rightarrow> int \<Rightarrow> string list \<Rightarrow> observation list \<Rightarrow> family_table \<Rightarrow> year_result" where
  "merge_family family_vars yr ind_cols ind_year fam0 =
     (case fam_columns fam0 of
        [] \<Rightarrow> Raised (IndexError ''index 0 is out of bounds'')
      | fam_interview_col # _ \<Rightarrow>
          let fam = rename_to_fam_interview fam_interview_col fam0
          in if \<exists>c \<in> set (fam_columns fam). c \<in> set ind_cols
               then Raised (Unmodelled ''overlapping column names in merge'')
             else Merged (merged_frame family_vars yr (ind_cols @ fam_columns fam)
                            (inner_join ind_year (fam_rows fam))))"

text \<open>\<^verbatim>\<open>fam_cols\<close>: the year's codes when \<^verbatim>\<open>family_vars\<close> is given, \<^verbatim>\<open>None\<close> (all
  columns) otherwise.\<close>

definition fam_cols_for :: "FamilyVars option \<Rightarrow> int \<Rightarrow> string list option" where
  "fam_cols_for family_vars yr =
     (case family_vars of None \<Rightarrow> None | Some specs \<Rightarrow> Some (get_columns specs yr))"

text \<open>
  The whole body.  The year 1968, whose interview column is \<^verbatim>\<open>ER30001\<close> itself, makes
  pandas select that column twice and is not modelled.  Without the year's interview
  column, \<^verbatim>\<open>ind_year["interview_number"]\<close> raises \<^verbatim>\<open>KeyError\<close>, before the family file
  is looked for.  Of the exceptions of \<^verbatim>\<open>load_family\<close> only \<^verbatim>\<open>FileNotFoundError\<close> is
  caught.
\<close>

definition process_year ::
  "data_dir \<Rightarrow> individual_table \<Rightarrow> FamilyVars option \<Rightarrow> bool \<Rightarrow> int \<Rightarrow> year_result" where
  "process_year dir ind family_vars heads_only yr =
     (let interview_col = get_interview_number_column yr
      in if interview_col \<in> set [''person_id'', ''ER30001'', ''ER30002'']
           then Raised (Unmodelled ''duplicate column labels in ind_year'')
         else if interview_col \<notin> set (ind_columns ind)
           then Raised (KeyError ''interview_number'')
         else
           case load_family yr dir (fam_cols_for family_vars yr) of
             Inl e \<Rightarrow> if is_FileNotFoundError e then Skipped e else Raised e
           | Inr fam0 \<Rightarrow>
               merge_family family_vars yr (ind_year_columns ind yr)
                 (ind_year_rows ind heads_only yr) fam0)"










section \<open>A panel from the test suite\<close>

text \<open>
  The fixture \<^verbatim>\<open>varying_obs_data\<close> of tests/test_panel.py: person 1 is observed in 2017,
  2019 and 2021, person 2 in 2017 and 2019, person 3 in 2021 only.  The store holds the
  frame at reference 0, and \<open>test_panel\<close> is \<^verbatim>\<open>Panel(data=varying_obs_data)\<close>.
\<close>

definition varying_obs_data :: dataframe where
  "varying_obs_data =
     \<lparr> columns = [''person_id'', ''year'', ''interview_number'', ''income''],
       rows =
         [ \<lparr>person_id = 1, year = 2017, cells = [(''interview_number'', Num 101), (''income'', Num 50000)]\<rparr>,
           \<lparr>person_id = 1, year = 2019, cells = [(''interview_number'', Num 102), (''income'', Num 52000)]\<rparr>,
           \<lparr>person_id = 1, year = 2021, cells = [(''interview_number'', Num 103), (''income'', Num 55000)]\<rparr>,
           \<lparr>person_id = 2, year = 2017, cells = [(''interview_number'', Num 201), (''income'', Num 30000)]\<rparr>,
           \<lparr>person_id = 2, year = 2019, cells = [(''interview_number'', Num 202), (''income'', Num 32000)]\<rparr>,
           \<lparr>person_id = 3, year = 2021, cells = [(''interview_number'', Num 301), (''income'', Num 40000)]\<rparr> ] \<rparr>"

definition test_store :: store where
  "test_store = \<lparr> frames = (\<lambda>r. varying_obs_data), next_ref = 1 \<rparr>"

definition test_panel :: panel where
  "test_panel = new_Panel 0 ''person_id'' ''year'' test_store"

section \<open>Theorems\<close>

lemma py_in_num: "py_in (Num a) cs = (a \<in> set cs)"
  by (induction cs) (auto simp: py_in_def)

lemma py_in_nonnum [simp]: "py_in PyNone cs = False" "py_in NaN cs = False"
  by (induction cs) (auto simp: py_in_def)

lemma code_of_simps [simp]:
  "code_of (Num n) = Some n" "code_of NaN = None" "code_of PyNone = None"
  by (simp_all add: code_of_def)

text \<open>
  Where every marital and relationship code is a number or \<^verbatim>\<open>None\<close>, and the two
  household keys are not both \<^verbatim>\<open>None\<close>, the classifier is the decision list of the
  specification.
\<close>

lemma classify_transition_without_NaN:
  assumes "rf \<noteq> NaN" "rt \<noteq> NaN" "mf \<noteq> NaN" "mt \<noteq> NaN"
      and "\<not> (hf = PyNone \<and> ht = PyNone)"
  shows "classify_transition hf ht rf rt mf mt af at =
     spec_classify \<lparr> household_key_from = hf, household_key_to = ht,
                     relationship_from = rf, relationship_to = rt,
                     marital_from = mf, marital_to = mt \<rparr>"
proof -
  have hh: "py_eq hf ht = (code_of hf \<noteq> None \<and> code_of hf = code_of ht)"
    using assms(5) by (cases hf; cases ht) simp_all
  have m1: "py_in mf [2, 4, 5] = (code_of mf \<in> {Some 2, Some 4, Some 5})"
    by (cases mf) (simp_all add: py_in_num)
  have m2: "py_in mt [4, 5] = (code_of mt \<in> {Some 4, Some 5})"
    by (cases mt) (simp_all add: py_in_num)
  have e: "py_eq v (Num n) = (code_of v = Some n)" for v n
    by (cases v) simp_all
  have n1: "(is_not_None rf \<and> is_not_None rt) \<and> py_ne rf (Num 1) \<and> py_eq rt (Num 1)
      \<longleftrightarrow> code_of rf \<notin> {None, Some 1} \<and> code_of rt = Some 1"
    using assms(1) by (cases rf; cases rt) (simp_all add: is_not_None_def py_ne_def)
  have n2: "(is_not_None rf \<and> is_not_None rt) \<and> py_eq rf (Num 1) \<and> py_ne rt (Num 1)
      \<longleftrightarrow> code_of rf = Some 1 \<and> code_of rt \<notin> {None, Some 1}"
    using assms(2) by (cases rf; cases rt) (simp_all add: is_not_None_def py_ne_def)
  have p: "(is_not_None x \<and> is_not_None y) \<and> py_eq x (Num a) \<and> py_eq y (Num b)
      \<longleftrightarrow> code_of x = Some a \<and> code_of y = Some b" for x y a b
    by (cases x; cases y) (simp_all add: is_not_None_def)
  have q1: "(is_not_None mf \<and> is_not_None mt) \<and> py_in mf [2, 4, 5] \<and> py_eq mt (Num 1)
      \<longleftrightarrow> code_of mf \<in> {Some 2, Some 4, Some 5} \<and> code_of mt = Some 1"
    by (cases mf; cases mt) (simp_all add: is_not_None_def py_in_num)
  have q2: "(is_not_None mf \<and> is_not_None mt) \<and> py_eq mf (Num 1) \<and> py_in mt [4, 5]
      \<longleftrightarrow> code_of mf = Some 1 \<and> code_of mt \<in> {Some 4, Some 5}"
    by (cases mf; cases mt) (simp_all add: is_not_None_def py_in_num)
  show ?thesis
    unfolding classify_transition_def spec_classify_def spec_rules_def
    by (simp only: hh n1 n2 p q1 q2 first_match.simps pair_signals.simps)
qed

text \<open>
  C1 fails on the code where a code is NaN, the value pandas hands over for a missing
  cell of an existing column: with different household keys, no marital codes, a missing
  relationship code before and head (1) after, the relationship rules are entered (NaN
  \<^verbatim>\<open>is not None\<close>) and \<^verbatim>\<open>NaN != 1\<close> makes the pair a SPLITOFF, where the decision list
  of the specification, for which a missing code matches no rule, gives OTHER.  In the
  other direction, head (1) before and a missing code after is JOIN_HOUSEHOLD instead of
  OTHER.
\<close>

theorem classify_transition_NaN_relationship:
  "classify_transition (Num 1) (Num 2) NaN (Num 1) PyNone PyNone PyNone PyNone = SPLITOFF
   \<and> spec_classify \<lparr> household_key_from = Num 1, household_key_to = Num 2,
                     relationship_from = NaN, relationship_to = Num 1,
                     marital_from = PyNone, marital_to = PyNone \<rparr> = OTHER
   \<and> classify_transition (Num 1) (Num 2) (Num 1) NaN PyNone PyNone PyNone PyNone = JOIN_HOUSEHOLD
   \<and> spec_classify \<lparr> household_key_from = Num 1, household_key_to = Num 2,
                     relationship_from = Num 1, relationship_to = NaN,
                     marital_from = PyNone, marital_to = PyNone \<rparr> = OTHER"
  by (simp add: classify_transition_def spec_classify_def spec_rules_def is_not_None_def
      py_ne_def)


text \<open>
  C10.  The classifier is total and its range is exactly the eight categories
  SAME_HOUSEHOLD, MARRIAGE, DIVORCE, WIDOWHOOD, LEAVE_PARENTAL, SPLITOFF, JOIN_HOUSEHOLD
  and OTHER: every input gives one of them, each of them is the result of some input,
  and MOVE_WITH_FAMILY, DEATH and BIRTH are never returned.
\<close>

theorem classify_transition_range:
  "(\<exists>hf ht rf rt mf mt af at. classify_transition hf ht rf rt mf mt af at = c)
     = (c \<in> {SAME_HOUSEHOLD, MARRIAGE, DIVORCE, WIDOWHOOD, LEAVE_PARENTAL, SPLITOFF,
              JOIN_HOUSEHOLD, OTHER})
   \<and> classify_transition hf ht rf rt mf mt af at \<notin> {MOVE_WITH_FAMILY, DEATH, BIRTH}"
proof -
  have into: "classify_transition hf ht rf rt mf mt af at
      \<in> {SAME_HOUSEHOLD, MARRIAGE, DIVORCE, WIDOWHOOD, LEAVE_PARENTAL, SPLITOFF,
          JOIN_HOUSEHOLD, OTHER}" for hf ht rf rt mf mt af at
    by (simp add: classify_transition_def)
  have onto:
    "classify_transition (Num 1) (Num 1) PyNone PyNone PyNone PyNone PyNone PyNone = SAME_HOUSEHOLD"
    "classify_transition (Num 1) (Num 2) PyNone PyNone (Num 2) (Num 1) PyNone PyNone = MARRIAGE"
    "classify_transition (Num 1) (Num 2) PyNone PyNone (Num 1) (Num 4) PyNone PyNone = DIVORCE"
    "classify_transition (Num 1) (Num 2) PyNone PyNone (Num 1) (Num 3) PyNone PyNone = WIDOWHOOD"
    "classify_transition (Num 1) (Num 2) (Num 3) (Num 1) PyNone PyNone PyNone PyNone = LEAVE_PARENTAL"
    "classify_transition (Num 1) (Num 2) (Num 7) (Num 1) PyNone PyNone PyNone PyNone = SPLITOFF"
    "classify_transition (Num 1) (Num 2) (Num 1) (Num 8) PyNone PyNone PyNone PyNone = JOIN_HOUSEHOLD"
    "classify_transition (Num 1) (Num 2) PyNone PyNone PyNone PyNone PyNone PyNone = OTHER"
    by (simp_all add: classify_transition_def is_not_None_def py_in_def py_ne_def)
  have "(\<exists>hf ht rf rt mf mt af at. classify_transition hf ht rf rt mf mt af at = c)
     = (c \<in> {SAME_HOUSEHOLD, MARRIAGE, DIVORCE, WIDOWHOOD, LEAVE_PARENTAL, SPLITOFF,
              JOIN_HOUSEHOLD, OTHER})"
  proof
    assume "\<exists>hf ht rf rt mf mt af at. classify_transition hf ht rf rt mf mt af at = c"
    then obtain hf ht rf rt mf mt af at
      where "classify_transition hf ht rf rt mf mt af at = c" by blast
    with into [of hf ht rf rt mf mt af at]
    show "c \<in> {SAME_HOUSEHOLD, MARRIAGE, DIVORCE, WIDOWHOOD, LEAVE_PARENTAL, SPLITOFF,
              JOIN_HOUSEHOLD, OTHER}" by simp
  next
    assume "c \<in> {SAME_HOUSEHOLD, MARRIAGE, DIVORCE, WIDOWHOOD, LEAVE_PARENTAL, SPLITOFF,
              JOIN_HOUSEHOLD, OTHER}"
    then consider "c = SAME_HOUSEHOLD" | "c = MARRIAGE" | "c = DIVORCE" | "c = WIDOWHOOD"
      | "c = LEAVE_PARENTAL" | "c = SPLITOFF" | "c = JOIN_HOUSEHOLD" | "c = OTHER" by auto
    then show "\<exists>hf ht rf rt mf mt af at. classify_transition hf ht rf rt mf mt af at = c"
    proof cases
      case 1 with onto(1) show ?thesis by blast
    next
      case 2 with onto(2) show ?thesis by blast
    next
      case 3 with onto(3) show ?thesis by blast
    next
      case 4 with onto(4) show ?thesis by blast
    next
      case 5 with onto(5) show ?thesis by blast
    next
      case 6 with onto(6) show ?thesis by blast
    next
      case 7 with onto(7) show ?thesis by blast
    next
      case 8 with onto(8) show ?thesis by blast
    qed
  qed
  moreover have "classify_transition hf ht rf rt mf mt af at \<notin> {MOVE_WITH_FAMILY, DEATH, BIRTH}"
    using into [of hf ht rf rt mf mt af at] by auto
  ultimately show ?thesis by simp
qed

text \<open>
  C8, as stated, fails: when both household keys are \<^verbatim>\<open>None\<close> (the interview column is
  absent, so \<^verbatim>\<open>row.get(interview_col, None)\<close> gives \<^verbatim>\<open>None\<close> twice), Python's
  \<^verbatim>\<open>None == None\<close> holds and the pair is classified SAME_HOUSEHOLD, here in spite of a
  child-to-head change of relationship.
\<close>

theorem classify_transition_both_keys_None:
  "classify_transition PyNone PyNone (Num 3) (Num 1) (Num 2) (Num 2) (Num 22) (Num 24)
     = SAME_HOUSEHOLD"
  by (simp add: classify_transition_def)

text \<open>
  C8, amended.  When a household key is NaN on either side, or \<^verbatim>\<open>None\<close> on exactly one
  side, rule 1 is not matched: the result is not SAME_HOUSEHOLD and is what the marital
  and relationship rules (the decision list without its first rule) give.  When both keys
  are \<^verbatim>\<open>None\<close> the result is SAME_HOUSEHOLD.
\<close>

theorem classify_transition_missing_key:
  "(hf = NaN \<or> ht = NaN \<or> (hf = PyNone) \<noteq> (ht = PyNone) \<longrightarrow>
      classify_transition hf ht rf rt mf mt af at \<noteq> SAME_HOUSEHOLD
    \<and> classify_transition hf ht rf rt mf mt af at =
        first_match (tl source_rules) OTHER
          \<lparr> household_key_from = hf, household_key_to = ht,
            relationship_from = rf, relationship_to = rt,
            marital_from = mf, marital_to = mt \<rparr>)
   \<and> classify_transition PyNone PyNone rf rt mf mt af at = SAME_HOUSEHOLD"
  by (cases hf; cases ht) (simp_all add: classify_transition_def source_rules_def
      marital_not_None_def relationship_not_None_def is_not_None_def)

theorem classify_transition_missing_key_witness:
  "(NaN = NaN \<or> Num 200 = NaN \<or> (NaN = PyNone) \<noteq> (Num 200 = PyNone))
   \<and> classify_transition NaN (Num 200) (Num 3) (Num 1) PyNone PyNone PyNone PyNone
       = LEAVE_PARENTAL
   \<and> classify_transition PyNone PyNone (Num 3) (Num 1) PyNone PyNone PyNone PyNone
       = SAME_HOUSEHOLD"
  using classify_transition_missing_key
    [of NaN "Num 200" "Num 3" "Num 1" PyNone PyNone PyNone PyNone]
  by (simp add: source_rules_def marital_not_None_def relationship_not_None_def)

lemma get_sample_type_explicit:
  "get_sample_type c =
     (if 1 \<le> c \<and> c \<le> 2999 then SRC
      else if 5001 \<le> c \<and> c \<le> 6872 then SEO
      else if (3001 \<le> c \<and> c \<le> 3511) \<or> (4001 \<le> c \<and> c \<le> 4462)
            \<or> (7001 \<le> c \<and> c \<le> 9308) then IMMIGRANT
      else UNKNOWN)"
  by (simp add: get_sample_type_def SAMPLE_RANGES_def)

lemma get_sample_type_hit:
  assumes "(s, rs) \<in> set SAMPLE_RANGES" "(lo, hi) \<in> set rs" "lo \<le> c" "c \<le> hi"
  shows "get_sample_type c = s"
proof -
  from assms(1) consider "s = SRC \<and> rs = [(1, 2999)]" | "s = SEO \<and> rs = [(5001, 6872)]"
    | "s = IMMIGRANT \<and> rs = [(3001, 3511), (4001, 4462), (7001, 9308)]"
    by (auto simp: SAMPLE_RANGES_def)
  then show ?thesis
  proof cases
    case 1 with assms show ?thesis by (simp add: get_sample_type_explicit)
  next
    case 2 with assms show ?thesis by (simp add: get_sample_type_explicit)
  next
    case 3 with assms show ?thesis by (auto simp add: get_sample_type_explicit)
  qed
qed

lemma get_sample_type_miss:
  assumes "\<forall>(s, rs) \<in> set SAMPLE_RANGES. \<forall>(lo, hi) \<in> set rs. \<not> (lo \<le> c \<and> c \<le> hi)"
  shows "get_sample_type c = UNKNOWN"
  using assms by (simp add: get_sample_type_def SAMPLE_RANGES_def)

text \<open>
  C5.  For every integer origin code the sample classifier returns the stratum of
  \<^verbatim>\<open>SAMPLE_RANGES\<close> one of whose inclusive ranges holds the code, and UNKNOWN (a value,
  not an error) when no range holds it; 1500 is SRC, 5500 is SEO, 3100 is IMMIGRANT and
  3000 is UNKNOWN.
\<close>

theorem get_sample_type_ranges:
  "((s, rs) \<in> set SAMPLE_RANGES \<and> (lo, hi) \<in> set rs \<and> lo \<le> c \<and> c \<le> hi
       \<longrightarrow> get_sample_type c = s)
   \<and> ((\<forall>(s, rs) \<in> set SAMPLE_RANGES. \<forall>(lo, hi) \<in> set rs. \<not> (lo \<le> d \<and> d \<le> hi))
       \<longrightarrow> get_sample_type d = UNKNOWN)
   \<and> get_sample_type 1500 = SRC \<and> get_sample_type 5500 = SEO
   \<and> get_sample_type 3100 = IMMIGRANT \<and> get_sample_type 3000 = UNKNOWN"
  using get_sample_type_hit [of s rs lo hi c] get_sample_type_miss [of d]
  by (simp add: get_sample_type_explicit)

theorem get_sample_type_ranges_witness:
  "((IMMIGRANT, [(3001, 3511), (4001, 4462), (7001, 9308)]) \<in> set SAMPLE_RANGES
     \<and> (4001, 4462) \<in> set [(3001, 3511), (4001, 4462), (7001, 9308 :: int)]
     \<and> (4001 :: int) \<le> 4100 \<and> (4100 :: int) \<le> 4462
     \<and> get_sample_type 4100 = IMMIGRANT)
   \<and> (\<not> (\<exists>(s, rs) \<in> set SAMPLE_RANGES. \<exists>(lo, hi) \<in> set rs. lo \<le> 6900 \<and> 6900 \<le> hi)
     \<and> get_sample_type 6900 = UNKNOWN)"
  using get_sample_type_ranges
    [of IMMIGRANT "[(3001, 3511), (4001, 4462), (7001, 9308)]" 4001 4462 4100 6900]
  by (simp add: SAMPLE_RANGES_def)

text \<open>
  Where nothing wraps around, the identifier is injective: in a 64-bit column every pair
  of a family number below \<open>2\<^sup>3\<^sup>1\<close> and a person number in \<open>0 \<dots> 999\<close> gets the
  identifier \<open>a * 1000 + b\<close>.
\<close>

lemma person_id_of_Int64:
  assumes "0 \<le> a" "a < 2 ^ 31" "0 \<le> b" "b < 1000"
  shows "person_id_of Int64 Int64 a b = a * 1000 + b"
proof -
  have w: "wrap Int64 x = x" if "0 \<le> x" "x < 2 ^ 63" for x
  proof -
    have "(x + 2 ^ 63) mod 2 ^ 64 = x + 2 ^ 63"
      by (rule mod_pos_pos_trivial) (use that in simp_all)
    then show ?thesis by (simp add: wrap_def)
  qed
  have 1: "0 \<le> a * 1000" "a * 1000 < 2 ^ 63" using assms by simp_all
  have 2: "0 \<le> a * 1000 + b" "a * 1000 + b < 2 ^ 63" using assms by simp_all
  show ?thesis by (simp only: person_id_of_def wider_def if_True order_refl w[OF 1] w[OF 2])
qed

lemma person_id_of_Int64_injective:
  assumes "0 \<le> a" "a < 2 ^ 31" "0 \<le> c" "c < 2 ^ 31"
      and "0 \<le> b" "b < 1000" "0 \<le> d" "d < 1000"
  shows "(person_id_of Int64 Int64 a b = person_id_of Int64 Int64 c d) = (a = c \<and> b = d)"
proof
  assume "person_id_of Int64 Int64 a b = person_id_of Int64 Int64 c d"
  then have e: "a * 1000 + b = c * 1000 + d"
    using assms by (simp add: person_id_of_Int64)
  have "(a * 1000 + b) div 1000 = a" using assms by simp
  moreover have "(c * 1000 + d) div 1000 = c" using assms by simp
  ultimately have "a = c" using e by simp
  with e show "a = c \<and> b = d" by simp
next
  assume "a = c \<and> b = d"
  then show "person_id_of Int64 Int64 a b = person_id_of Int64 Int64 c d" by simp
qed

text \<open>
  C4 fails on the code for columns stored as 16-bit integers (a Stata \<^verbatim>\<open>int\<close> column
  read by \<^verbatim>\<open>read_stata\<close>): the product \<open>8193 * 1000 = 125 * 2\<^sup>1\<^sup>6 + 1000\<close> wraps around to
  1000, so that the valid pairs \<open>(1, 1)\<close> and \<open>(8193, 1)\<close> both get the identifier 1001,
  and \<open>(33, 1)\<close> gets the negative identifier \<open>-32535\<close>.
\<close>

theorem person_id_int16_collision:
  "person_id_of Int16 Int16 1 1 = 1001
   \<and> person_id_of Int16 Int16 8193 1 = 1001
   \<and> person_id_of Int16 Int16 33 1 = - 32535"
  by (simp add: person_id_of_def wrap_def wider_def)

subsection \<open>Lists: sorting, groups and adjacent pairs\<close>















lemma set_groupby_keys [simp]: "set (groupby_keys xs) = person_id ` set xs"
  by (simp add: groupby_keys_def)

lemma set_sort_values_id_time [simp]: "set (sort_values_id_time xs) = set xs"
  by (simp add: sort_values_id_time_def)



lemma length_groupby_shift_next [simp]: "length (groupby_shift_next f xs) = length xs"
  by (induction xs) auto




lemma map_fst_filter_tagged:
  "map fst (filter (\<lambda>(k, c). P c) (map (\<lambda>k. (k, f k)) ks)) = filter (\<lambda>k. P (f k)) ks"
  by (induction ks) auto

lemma count_valid_ids:
  "set (map fst (filter (\<lambda>(k, c). int c \<ge> n) (groupby_count xs)))
     = {k \<in> person_id ` set xs. n \<le> int (length (get_group k xs))}"
  unfolding groupby_count_def map_fst_filter_tagged by auto

lemma nunique_valid_ids:
  "set (map fst (filter (\<lambda>(k, c). c = m) (groupby_nunique xs)))
     = {k \<in> person_id ` set xs. length (remdups (map year (get_group k xs))) = m}"
  unfolding groupby_nunique_def map_fst_filter_tagged by auto

lemma years_within_card:
  "length (remdups (map year (get_group k (filter (\<lambda>r. year r \<in> set Y) xs))))
     = card (year ` {r \<in> set xs. person_id r = k} \<inter> set Y)"
proof -
  have "set (map year (get_group k (filter (\<lambda>r. year r \<in> set Y) xs)))
          = year ` {r \<in> set xs. person_id r = k} \<inter> set Y"
    by (auto simp: get_group_def)
  then show ?thesis by (metis length_remdups_card_conv)
qed

subsection \<open>Column writes and the loop of \<open>get_transitions\<close>\<close>

lemma map_of_alist_update [simp]: "map_of (alist_update k v kvs) k = Some v"
  by (induction kvs) auto

lemma map2_update_ids:
  "length xs = length vals \<Longrightarrow>
     map person_id (map (\<lambda>(r, v). r\<lparr>cells := g v r\<rparr>) (zip xs vals)) = map person_id xs
   \<and> map year (map (\<lambda>(r, v). r\<lparr>cells := g v r\<rparr>) (zip xs vals)) = map year xs"
  by (induction xs vals rule: list_induct2) auto

lemma rows_set_column_ids:
  "length vals = length (rows d) \<Longrightarrow>
     map person_id (rows (set_column name vals d)) = map person_id (rows d)
   \<and> map year (rows (set_column name vals d)) = map year (rows d)"
  using map2_update_ids[of "rows d" vals "\<lambda>v r. alist_update name v (cells r)"]
  by (simp add: set_column_def)

lemma shift_columns_inv:
  "shift_columns p cols df rc s = (rc', s') \<Longrightarrow>
     next_ref s' = next_ref s
   \<and> (\<forall>r. r \<noteq> df \<longrightarrow> frames s' r = frames s r)
   \<and> map person_id (rows (frames s' df)) = map person_id (rows (frames s df))
   \<and> map year (rows (frames s' df)) = map year (rows (frames s df))
   \<and> (\<exists>extra. rc' = rc @ extra)
   \<and> set (columns (frames s df)) \<subseteq> set (columns (frames s' df))"
proof (induction p cols df rc s arbitrary: rc' s' rule: shift_columns.induct)
  case (1 self df result_cols s)
  then show ?case by simp
next
  case (2 self col cols df result_cols s)
  show ?case
  proof (cases "col \<in> set (columns (frames s df))")
    case False
    with 2 show ?thesis by simp
  next
    case True
    let ?shifted = "groupby_shift_next (\<lambda>r. column_value (id_col self) (time_col self) r col)
                      (rows (frames s df))"
    let ?s1 = "write_frame df (set_column (col @ ''_t1'') ?shifted (frames s df)) s"
    from True "2.prems"
    have run: "shift_columns self cols df (result_cols @ [col, col @ ''_t1'']) ?s1 = (rc', s')"
      by (simp add: Let_def)
    from "2.IH"(2)[OF _ refl refl run] True
    have ih: "next_ref s' = next_ref ?s1"
      "\<forall>r. r \<noteq> df \<longrightarrow> frames s' r = frames ?s1 r"
      "map person_id (rows (frames s' df)) = map person_id (rows (frames ?s1 df))"
      "map year (rows (frames s' df)) = map year (rows (frames ?s1 df))"
      "\<exists>extra. rc' = (result_cols @ [col, col @ ''_t1'']) @ extra"
      "set (columns (frames ?s1 df)) \<subseteq> set (columns (frames s' df))"
      by simp_all
    have w: "frames ?s1 df = set_column (col @ ''_t1'') ?shifted (frames s df)"
      "next_ref ?s1 = next_ref s" "\<And>r. r \<noteq> df \<Longrightarrow> frames ?s1 r = frames s r"
      by (simp_all add: write_frame_def)
    have ids: "map person_id (rows (frames ?s1 df)) = map person_id (rows (frames s df))"
      "map year (rows (frames ?s1 df)) = map year (rows (frames s df))"
      using rows_set_column_ids[of ?shifted "frames s df" "col @ ''_t1''"]
      by (simp_all add: w(1))
    have cols: "set (columns (frames s df)) \<subseteq> set (columns (frames ?s1 df))"
      unfolding w(1) by (auto simp: set_column_def)
    from ih(5) obtain extra where "rc' = result_cols @ ([col, col @ ''_t1''] @ extra)" by auto
    then have ex: "\<exists>extra. rc' = result_cols @ extra" by blast
    show ?thesis using ih(1-4) ih(6) w(2,3) ids cols ex by auto
  qed
qed



lemma get_transitions_unfold:
  assumes "id_col p \<in> set (columns (frames s (data p)))"
      and "time_col p \<in> set (columns (frames s (data p)))"
  shows "get_transitions p ca s =
    (let cols = requested_cols p ca;
         n = next_ref s;
         d0 = frames s (data p);
         s1 = s\<lparr>frames := (frames s)(n := d0, Suc n := d0\<lparr>rows := sort_values_id_time (rows d0)\<rparr>),
               next_ref := Suc (Suc n)\<rparr>;
         sc = shift_columns p cols (Suc n) [id_col p, time_col p] s1;
         s2 = snd sc;
         d2 = frames s2 (Suc n);
         V = groupby_shift_next (\<lambda>r. Num (year r)) (rows d2);
         d3 = set_column ''year_t1'' V d2;
         rcs = take 2 (fst sc) @ [''year_t1''] @ drop 2 (fst sc);
         rn = (time_col p, ''year_t'') # map (\<lambda>col. (col, col @ ''_t''))
                (filter (\<lambda>col. col \<in> set (columns d3)) cols);
         res = rename_columns rn (dropna (id_col p) (time_col p) ''year_t1''
                 (select_columns (id_col p) (time_col p) rcs d3))
     in (Inr (next_ref s2),
         s2\<lparr>frames := (frames s2)(Suc n := d3, next_ref s2 := res),
            next_ref := Suc (next_ref s2)\<rparr>))"
  using assms
  by (simp add: get_transitions_def Let_def alloc_def split_def write_frame_def)


subsection \<open>The rows each operation returns\<close>

lemma tr_fields [simp]:
  "tr_person_id (transition_of p d ic rc mc ac pid ab) = pid"
  "tr_year_from (transition_of p d ic rc mc ac pid ab) = year (fst ab)"
  "tr_year_to (transition_of p d ic rc mc ac pid ab) = year (snd ab)"
  by (simp_all add: transition_of_def Let_def split_def)




lemma min_periods_rows:
  assumes "id_col p \<in> set (columns (frames s (data p)))"
      and "time_col p \<in> set (columns (frames s (data p)))"
  shows "\<exists>p' s'. min_periods p n s = (Inr p', s')
           \<and> rows (frames s' (data p'))
               = filter (\<lambda>r. n \<le> int (length (get_group (person_id r) (rows (frames s (data p))))))
                   (rows (frames s (data p)))"
proof -
  let ?xs = "rows (frames s (data p))"
  have "filter (\<lambda>r. person_id r \<in> set (map fst (filter (\<lambda>(k, c). int c \<ge> n) (groupby_count ?xs)))) ?xs
      = filter (\<lambda>r. n \<le> int (length (get_group (person_id r) ?xs))) ?xs"
    by (rule filter_cong) (auto simp only: count_valid_ids)
  then show ?thesis using assms
    by (simp add: min_periods_def Let_def alloc_def new_Panel_def)
qed

lemma balanced_rows:
  assumes "id_col p \<in> set (columns (frames s (data p)))"
      and "time_col p \<in> set (columns (frames s (data p)))"
      and "Y \<noteq> []"
  shows "\<exists>p' s'. balanced p (Some Y) s = (Inr p', s')
           \<and> rows (frames s' (data p'))
               = filter (\<lambda>r. card (year ` {r' \<in> set (rows (frames s (data p))). person_id r' = person_id r}
                                     \<inter> set Y) = length Y)
                   (rows (frames s (data p)))"
proof -
  let ?xs = "rows (frames s (data p))"
  let ?iy = "filter (\<lambda>r. year r \<in> set Y) ?xs"
  have "filter (\<lambda>r. person_id r \<in> set (map fst (filter (\<lambda>(k, c). c = length Y) (groupby_nunique ?iy)))) ?xs
      = filter (\<lambda>r. card (year ` {r' \<in> set ?xs. person_id r' = person_id r} \<inter> set Y) = length Y) ?xs"
  proof (rule filter_cong[OF refl])
    fix r assume r: "r \<in> set ?xs"
    show "(person_id r \<in> set (map fst (filter (\<lambda>(k, c). c = length Y) (groupby_nunique ?iy))))
        = (card (year ` {r' \<in> set ?xs. person_id r' = person_id r} \<inter> set Y) = length Y)"
    proof (cases "person_id r \<in> person_id ` set ?iy")
      case True
      then show ?thesis by (simp only: nunique_valid_ids years_within_card) simp
    next
      case False
      have "year r' \<notin> set Y" if "r' \<in> set ?xs" "person_id r' = person_id r" for r'
      proof
        assume "year r' \<in> set Y"
        with that have "r' \<in> set ?iy" by simp
        then have "person_id r' \<in> person_id ` set ?iy" by (rule imageI)
        with that False show False by simp
      qed
      then have "year ` {r' \<in> set ?xs. person_id r' = person_id r} \<inter> set Y = {}" by auto
      then have "card (year ` {r' \<in> set ?xs. person_id r' = person_id r} \<inter> set Y) = 0" by simp
      moreover have "length Y \<noteq> 0" using assms(3) by simp
      ultimately show ?thesis using False by (simp only: nunique_valid_ids) simp
    qed
  qed
  then show ?thesis using assms
    by (simp add: balanced_def Let_def alloc_def new_Panel_def)
qed

subsection \<open>What each operation leaves untouched\<close>

lemma frame_balanced:
  "r < next_ref s \<Longrightarrow> frames (snd (balanced p ya s)) r = frames s r"
  by (simp add: balanced_def Let_def alloc_def)

lemma fresh_balanced:
  "fst (balanced p ya s) = Inr p' \<Longrightarrow> data p' = next_ref s"
  by (auto simp: balanced_def Let_def alloc_def new_Panel_def split: if_splits)

lemma frame_min_periods:
  "r < next_ref s \<Longrightarrow> frames (snd (min_periods p n s)) r = frames s r"
  by (simp add: min_periods_def Let_def alloc_def)

lemma fresh_min_periods:
  "fst (min_periods p n s) = Inr p' \<Longrightarrow> data p' = next_ref s"
  by (auto simp: min_periods_def Let_def alloc_def new_Panel_def split: if_splits)

lemma frame_to_cross_section:
  "r < next_ref s \<Longrightarrow> frames (snd (to_cross_section p y s)) r = frames s r"
  by (simp add: to_cross_section_def Let_def alloc_def split: option.splits)

lemma fresh_to_cross_section:
  "fst (to_cross_section p y s) = Inr d \<Longrightarrow> d = next_ref s"
  by (auto simp: to_cross_section_def Let_def alloc_def split: option.splits if_splits)

lemma frame_get_household_transitions:
  "r < next_ref s \<Longrightarrow> frames (snd (get_household_transitions p ic rc mc ac s)) r = frames s r"
  by (simp add: get_household_transitions_def Let_def alloc_def)

lemma frame_get_transitions:
  assumes "r < next_ref s"
  shows "frames (snd (get_transitions p ca s)) r = frames s r"
proof (cases "id_col p \<in> set (columns (frames s (data p)))
            \<and> time_col p \<in> set (columns (frames s (data p)))")
  case False
  then show ?thesis using assms
    by (auto simp: get_transitions_def Let_def alloc_def)
next
  case True
  define s1 where "s1 = s\<lparr>frames := (frames s)(next_ref s := frames s (data p),
       Suc (next_ref s) := (frames s (data p))\<lparr>rows := sort_values_id_time (rows (frames s (data p)))\<rparr>),
               next_ref := Suc (Suc (next_ref s))\<rparr>"
  obtain rc1 s2 where sc:
    "shift_columns p (requested_cols p ca) (Suc (next_ref s)) [id_col p, time_col p] s1 = (rc1, s2)"
    by (cases "shift_columns p (requested_cols p ca) (Suc (next_ref s)) [id_col p, time_col p] s1") auto
  from shift_columns_inv[OF sc] assms
  have "next_ref s2 = Suc (Suc (next_ref s))" "frames s2 r = frames s1 r"
    by (simp_all add: s1_def)
  moreover have "frames s1 r = frames s r" using assms by (simp add: s1_def)
  ultimately show ?thesis using True assms sc
    unfolding get_transitions_unfold[of p s ca, OF conjunct1[OF True] conjunct2[OF True]] Let_def s1_def
    by simp
qed

lemma fresh_get_transitions:
  assumes "fst (get_transitions p ca s) = Inr d"
  shows "d = Suc (Suc (next_ref s))"
proof (cases "id_col p \<in> set (columns (frames s (data p)))
            \<and> time_col p \<in> set (columns (frames s (data p)))")
  case False
  then show ?thesis using assms
    by (auto simp: get_transitions_def Let_def alloc_def split: if_splits)
next
  case True
  define s1 where "s1 = s\<lparr>frames := (frames s)(next_ref s := frames s (data p),
       Suc (next_ref s) := (frames s (data p))\<lparr>rows := sort_values_id_time (rows (frames s (data p)))\<rparr>),
               next_ref := Suc (Suc (next_ref s))\<rparr>"
  obtain rc1 s2 where sc:
    "shift_columns p (requested_cols p ca) (Suc (next_ref s)) [id_col p, time_col p] s1 = (rc1, s2)"
    by (cases "shift_columns p (requested_cols p ca) (Suc (next_ref s)) [id_col p, time_col p] s1") auto
  from shift_columns_inv[OF sc]
  have "next_ref s2 = Suc (Suc (next_ref s))" by (simp add: s1_def)
  then show ?thesis using True assms sc
    unfolding get_transitions_unfold[of p s ca, OF conjunct1[OF True] conjunct2[OF True]] Let_def s1_def
    by simp
qed




text \<open>
  C6.  For a panel whose identifier and time columns exist and a non-empty list of years
  \<open>Y\<close>, \<^verbatim>\<open>balanced(Y)\<close> returns a panel whose rows are the rows of the original, in
  their order, of exactly those persons whose number of distinct observation years
  within \<open>Y\<close> equals the length of \<open>Y\<close>; all rows of every other person are dropped.
\<close>

theorem balanced_keeps_complete_persons:
  assumes "id_col p \<in> set (columns (frames s (data p)))"
      and "time_col p \<in> set (columns (frames s (data p)))"
      and "Y \<noteq> []"
  shows "\<exists>p' s'. balanced p (Some Y) s = (Inr p', s')
           \<and> rows (frames s' (data p'))
               = filter (\<lambda>r. card (year ` {r' \<in> set (rows (frames s (data p))).
                                               person_id r' = person_id r} \<inter> set Y) = length Y)
                   (rows (frames s (data p)))
           \<and> set (rows (frames s' (data p'))) \<subseteq> set (rows (frames s (data p)))"
proof -
  from balanced_rows[OF assms]
  obtain p' s' where b: "balanced p (Some Y) s = (Inr p', s')"
    and r: "rows (frames s' (data p'))
               = filter (\<lambda>r. card (year ` {r' \<in> set (rows (frames s (data p))).
                                               person_id r' = person_id r} \<inter> set Y) = length Y)
                   (rows (frames s (data p)))"
    by blast
  from r have "set (rows (frames s' (data p'))) \<subseteq> set (rows (frames s (data p)))"
    by (simp only: set_filter) blast
  with b r show ?thesis by blast
qed

lemma card_years_within:
  "card (year ` {r' \<in> set xs. person_id r' = k} \<inter> set Y)
     = length (remdups (filter (\<lambda>y. y \<in> set Y) (map year (get_group k xs))))"
proof -
  have "year ` {r' \<in> set xs. person_id r' = k} \<inter> set Y
      = set (filter (\<lambda>y. y \<in> set Y) (map year (get_group k xs)))"
    by (auto simp: get_group_def)
  then show ?thesis by (simp only: length_remdups_card_conv)
qed

theorem balanced_keeps_complete_persons_witness:
  "(id_col test_panel \<in> set (columns (frames test_store (data test_panel)))
    \<and> time_col test_panel \<in> set (columns (frames test_store (data test_panel)))
    \<and> [2017, 2019, 2021] \<noteq> ([] :: int list))
   \<and> (\<exists>p' s'. balanced test_panel (Some [2017, 2019, 2021]) test_store = (Inr p', s')
         \<and> map (\<lambda>r. (person_id r, year r)) (rows (frames s' (data p')))
             = [(1, 2017), (1, 2019), (1, 2021)])"
proof -
  have h: "id_col test_panel \<in> set (columns (frames test_store (data test_panel)))"
    "time_col test_panel \<in> set (columns (frames test_store (data test_panel)))"
    "[2017, 2019, 2021] \<noteq> ([] :: int list)"
    by (simp_all add: test_panel_def test_store_def varying_obs_data_def new_Panel_def)
  from balanced_keeps_complete_persons[OF h]
  obtain p' s' where b: "balanced test_panel (Some [2017, 2019, 2021]) test_store = (Inr p', s')"
    and r: "rows (frames s' (data p'))
        = filter (\<lambda>r. card (year ` {r' \<in> set (rows (frames test_store (data test_panel))).
                                        person_id r' = person_id r} \<inter> set [2017, 2019, 2021])
                        = length [2017, 2019, 2021 :: int])
            (rows (frames test_store (data test_panel)))"
    by blast
  have "map (\<lambda>r. (person_id r, year r)) (rows (frames s' (data p')))
      = [(1, 2017), (1, 2019), (1, 2021)]"
    unfolding r card_years_within
    by (simp add: test_panel_def test_store_def varying_obs_data_def new_Panel_def get_group_def)
  with b have "\<exists>p' s'. balanced test_panel (Some [2017, 2019, 2021]) test_store = (Inr p', s')
         \<and> map (\<lambda>r. (person_id r, year r)) (rows (frames s' (data p')))
             = [(1, 2017), (1, 2019), (1, 2021)]"
    by (intro exI[of _ p'] exI[of _ s'] conjI)
  with h show ?thesis by (intro conjI)
qed

text \<open>
  C7, as stated, fails: \<^verbatim>\<open>min_periods(0)\<close> on the test panel raises nothing; it returns
  a new panel (its frame at the fresh reference 1).
\<close>

theorem min_periods_zero_returns:
  "fst (min_periods test_panel 0 test_store)
     = Inr \<lparr> data = 1, id_col = ''person_id'', time_col = ''year'', value_cols = [''income''] \<rparr>
   \<and> rows (frames (snd (min_periods test_panel 0 test_store)) 1) = rows varying_obs_data"
  by (simp add: min_periods_def test_panel_def test_store_def varying_obs_data_def new_Panel_def
      Let_def alloc_def groupby_count_def groupby_keys_def get_group_def)

text \<open>
  C7, amended.  For a panel whose identifier and time columns exist, \<^verbatim>\<open>min_periods(n)\<close>
  raises for no integer \<open>n\<close>: it returns a panel whose rows are the rows of the
  original, in their order, of exactly those persons with at least \<open>n\<close> observations, all
  observations of such a person being kept; for \<open>n \<le> 1\<close> (so also for \<open>n < 1\<close>) that
  is every row of the original.
\<close>

theorem min_periods_keeps_qualifying_persons:
  assumes "id_col p \<in> set (columns (frames s (data p)))"
      and "time_col p \<in> set (columns (frames s (data p)))"
  shows "\<exists>p' s'. min_periods p n s = (Inr p', s')
           \<and> rows (frames s' (data p'))
               = filter (\<lambda>r. n \<le> int (length (get_group (person_id r) (rows (frames s (data p))))))
                   (rows (frames s (data p)))
           \<and> set (rows (frames s' (data p'))) \<subseteq> set (rows (frames s (data p)))
           \<and> (n \<le> 1 \<longrightarrow> rows (frames s' (data p')) = rows (frames s (data p)))"
proof -
  let ?xs = "rows (frames s (data p))"
  from min_periods_rows[OF assms, of n]
  obtain p' s' where m: "min_periods p n s = (Inr p', s')"
    and r: "rows (frames s' (data p'))
               = filter (\<lambda>r. n \<le> int (length (get_group (person_id r) ?xs))) ?xs"
    by blast
  from r have sub: "set (rows (frames s' (data p'))) \<subseteq> set ?xs"
    by (simp only: set_filter) blast
  have all: "rows (frames s' (data p')) = ?xs" if "n \<le> 1"
  proof -
    have "n \<le> int (length (get_group (person_id x) ?xs))" if "x \<in> set ?xs" for x
    proof -
      from that have "x \<in> set (get_group (person_id x) ?xs)" by (simp add: get_group_def)
      then have "length (get_group (person_id x) ?xs) \<noteq> 0" by auto
      with \<open>n \<le> 1\<close> show ?thesis by linarith
    qed
    then show ?thesis unfolding r by (simp add: filter_id_conv)
  qed
  from m r sub all show ?thesis by blast
qed

theorem min_periods_keeps_qualifying_persons_witness:
  "(id_col test_panel \<in> set (columns (frames test_store (data test_panel)))
    \<and> time_col test_panel \<in> set (columns (frames test_store (data test_panel))))
   \<and> (\<exists>p' s'. min_periods test_panel 2 test_store = (Inr p', s')
         \<and> map (\<lambda>r. (person_id r, year r)) (rows (frames s' (data p')))
             = [(1, 2017), (1, 2019), (1, 2021), (2, 2017), (2, 2019)])"
proof -
  have h: "id_col test_panel \<in> set (columns (frames test_store (data test_panel)))"
    "time_col test_panel \<in> set (columns (frames test_store (data test_panel)))"
    by (simp_all add: test_panel_def test_store_def varying_obs_data_def new_Panel_def)
  from min_periods_keeps_qualifying_persons[OF h, of 2]
  obtain p' s' where m: "min_periods test_panel 2 test_store = (Inr p', s')"
    and r: "rows (frames s' (data p'))
        = filter (\<lambda>r. 2 \<le> int (length (get_group (person_id r)
                                        (rows (frames test_store (data test_panel))))))
            (rows (frames test_store (data test_panel)))"
    by blast
  have "map (\<lambda>r. (person_id r, year r)) (rows (frames s' (data p')))
      = [(1, 2017), (1, 2019), (1, 2021), (2, 2017), (2, 2019)]"
    unfolding r
    by (simp add: test_panel_def test_store_def varying_obs_data_def new_Panel_def get_group_def)
  with m have "\<exists>p' s'. min_periods test_panel 2 test_store = (Inr p', s')
         \<and> map (\<lambda>r. (person_id r, year r)) (rows (frames s' (data p')))
             = [(1, 2017), (1, 2019), (1, 2021), (2, 2017), (2, 2019)]"
    by (intro exI[of _ p'] exI[of _ s'] conjI)
  with h show ?thesis by (intro conjI)
qed

text \<open>
  C9.  None of the operations \<^verbatim>\<open>balanced\<close>, \<^verbatim>\<open>min_periods\<close>, \<^verbatim>\<open>to_cross_section\<close>,
  \<^verbatim>\<open>get_transitions\<close> and \<^verbatim>\<open>get_household_transitions\<close> changes a frame that exists when
  it is called (in particular the frame of the panel it is called on), whether it returns
  or raises; the panel or frame it returns is a new object, at a reference that was not
  in use before.
\<close>

theorem panel_operations_leave_frames_unchanged:
  assumes "r < next_ref s"
  shows "frames (snd (balanced p ya s)) r = frames s r
       \<and> frames (snd (min_periods p n s)) r = frames s r
       \<and> frames (snd (to_cross_section p y s)) r = frames s r
       \<and> frames (snd (get_transitions p ca s)) r = frames s r
       \<and> frames (snd (get_household_transitions p ic rc mc ac s)) r = frames s r
       \<and> (\<forall>p'. fst (balanced p ya s) = Inr p' \<longrightarrow> data p' \<ge> next_ref s)
       \<and> (\<forall>p'. fst (min_periods p n s) = Inr p' \<longrightarrow> data p' \<ge> next_ref s)
       \<and> (\<forall>d. fst (to_cross_section p y s) = Inr d \<longrightarrow> d \<ge> next_ref s)
       \<and> (\<forall>d. fst (get_transitions p ca s) = Inr d \<longrightarrow> d \<ge> next_ref s)"
proof -
  have "data p' \<ge> next_ref s" if "fst (balanced p ya s) = Inr p'" for p'
    using fresh_balanced[OF that] by simp
  moreover have "data p' \<ge> next_ref s" if "fst (min_periods p n s) = Inr p'" for p'
    using fresh_min_periods[OF that] by simp
  moreover have "d \<ge> next_ref s" if "fst (to_cross_section p y s) = Inr d" for d
    using fresh_to_cross_section[OF that] by simp
  moreover have "d \<ge> next_ref s" if "fst (get_transitions p ca s) = Inr d" for d
    using fresh_get_transitions[OF that] by simp
  ultimately show ?thesis
    using frame_balanced[OF assms] frame_min_periods[OF assms] frame_to_cross_section[OF assms]
      frame_get_transitions[OF assms] frame_get_household_transitions[OF assms]
    by blast
qed

theorem panel_operations_leave_frames_unchanged_witness:
  "data test_panel < next_ref test_store
   \<and> frames (snd (balanced test_panel (Some [2017, 2019, 2021]) test_store)) (data test_panel)
       = varying_obs_data
   \<and> frames (snd (min_periods test_panel 2 test_store)) (data test_panel) = varying_obs_data
   \<and> frames (snd (to_cross_section test_panel None test_store)) (data test_panel)
       = varying_obs_data
   \<and> frames (snd (get_transitions test_panel (Some [''income'']) test_store)) (data test_panel)
       = varying_obs_data
   \<and> frames (snd (get_household_transitions test_panel ''interview_number'' ''relationship''
                     None None test_store)) (data test_panel) = varying_obs_data"
proof -
  have h: "data test_panel < next_ref test_store"
    by (simp add: test_panel_def test_store_def new_Panel_def)
  have f: "frames test_store (data test_panel) = varying_obs_data"
    by (simp add: test_store_def)
  from panel_operations_leave_frames_unchanged[OF h] h show ?thesis
    unfolding f by simp
qed

subsection \<open>The loop of \<open>build_panel\<close>\<close>












lemma load_family_not_found:
  "family_file dir y = None \<Longrightarrow>
     load_family y dir cols = Inl (FileNotFoundError ''PSID family file not found'')"
  by (simp add: load_family_def)

lemma process_year_not_found:
  assumes "family_file dir y = None" "\<forall>e. process_year dir ind fv ho y \<noteq> Raised e"
  shows "process_year dir ind fv ho y = Skipped (FileNotFoundError ''PSID family file not found'')"
  using assms
  by (auto simp: process_year_def Let_def load_family_not_found is_FileNotFoundError_def
      split: if_splits)
















end
